theory Spec2Isabelle
  imports Complex_Main
begin

section \<open>Numeric values\<close>

text \<open>
  The program computes with numpy's \<^verbatim>\<open>float64\<close>. A value is modelled as an exact real
  or one of the three special values that numpy produces instead of raising
  (\<^verbatim>\<open>np.log(0.0)\<close> is \<^verbatim>\<open>-inf\<close>, \<^verbatim>\<open>0.0/0.0\<close> is \<^verbatim>\<open>nan\<close>, both with a warning only).
  In the operations of this section finite arithmetic is the arithmetic of the reals:
  rounding, overflow, underflow and the sign of zero are not modelled. The operations
  with float64 rounding follow the vector operations.
\<close>

datatype npfloat = Fin real | PInf | NInf | NaN

fun np_neg :: "npfloat \<Rightarrow> npfloat" where
  "np_neg (Fin a) = Fin (- a)"
| "np_neg PInf = NInf"
| "np_neg NInf = PInf"
| "np_neg NaN = NaN"

fun np_add :: "npfloat \<Rightarrow> npfloat \<Rightarrow> npfloat" where
  "np_add (Fin a) (Fin b) = Fin (a + b)"
| "np_add NaN y = NaN"
| "np_add x NaN = NaN"
| "np_add PInf NInf = NaN"
| "np_add NInf PInf = NaN"
| "np_add PInf y = PInf"
| "np_add NInf y = NInf"
| "np_add x PInf = PInf"
| "np_add x NInf = NInf"

definition np_sub :: "npfloat \<Rightarrow> npfloat \<Rightarrow> npfloat" where
  "np_sub x y = np_add x (np_neg y)"

fun np_mul :: "npfloat \<Rightarrow> npfloat \<Rightarrow> npfloat" where
  "np_mul (Fin a) (Fin b) = Fin (a * b)"
| "np_mul NaN y = NaN"
| "np_mul x NaN = NaN"
| "np_mul (Fin a) PInf = (if a = 0 then NaN else if 0 < a then PInf else NInf)"
| "np_mul (Fin a) NInf = (if a = 0 then NaN else if 0 < a then NInf else PInf)"
| "np_mul PInf (Fin b) = (if b = 0 then NaN else if 0 < b then PInf else NInf)"
| "np_mul NInf (Fin b) = (if b = 0 then NaN else if 0 < b then NInf else PInf)"
| "np_mul PInf PInf = PInf"
| "np_mul PInf NInf = NInf"
| "np_mul NInf PInf = NInf"
| "np_mul NInf NInf = PInf"

fun np_div :: "npfloat \<Rightarrow> npfloat \<Rightarrow> npfloat" where
  "np_div (Fin a) (Fin b) =
     (if b = 0 then (if a = 0 then NaN else if 0 < a then PInf else NInf)
      else Fin (a / b))"
| "np_div NaN y = NaN"
| "np_div x NaN = NaN"
| "np_div (Fin a) PInf = Fin 0"
| "np_div (Fin a) NInf = Fin 0"
| "np_div PInf (Fin b) = (if 0 \<le> b then PInf else NInf)"
| "np_div NInf (Fin b) = (if 0 \<le> b then NInf else PInf)"
| "np_div PInf PInf = NaN"
| "np_div PInf NInf = NaN"
| "np_div NInf PInf = NaN"
| "np_div NInf NInf = NaN"

text \<open>\<^verbatim>\<open>x < y\<close>: every comparison with \<^verbatim>\<open>nan\<close> is false.\<close>

fun np_less :: "npfloat \<Rightarrow> npfloat \<Rightarrow> bool" where
  "np_less (Fin a) (Fin b) = (a < b)"
| "np_less NaN y = False"
| "np_less x NaN = False"
| "np_less x NInf = False"
| "np_less PInf y = False"
| "np_less NInf y = True"
| "np_less x PInf = True"

fun np_log :: "npfloat \<Rightarrow> npfloat" where
  "np_log (Fin a) = (if 0 < a then Fin (ln a) else if a = 0 then NInf else NaN)"
| "np_log PInf = PInf"
| "np_log NInf = NaN"
| "np_log NaN = NaN"

fun np_abs :: "npfloat \<Rightarrow> npfloat" where
  "np_abs (Fin a) = Fin \<bar>a\<bar>"
| "np_abs PInf = PInf"
| "np_abs NInf = PInf"
| "np_abs NaN = NaN"

text \<open>Python's two-argument \<^verbatim>\<open>max(a, b)\<close> and \<^verbatim>\<open>min(a, b)\<close> keep the first argument
  unless the second is strictly greater (smaller).\<close>

definition py_max :: "npfloat \<Rightarrow> npfloat \<Rightarrow> npfloat" where
  "py_max a b = (if np_less a b then b else a)"

definition py_min :: "npfloat \<Rightarrow> npfloat \<Rightarrow> npfloat" where
  "py_min a b = (if np_less b a then b else a)"

text \<open>A value that may be \<^verbatim>\<open>None\<close>.\<close>

datatype pyval = PNone | PFloat npfloat

datatype pyerr =
  IndexError | ValueError | TypeError | ZeroDivisionError | UnboundLocalError
  | OracleError

section \<open>The attractor classifier\<close>

text \<open>\<^verbatim>\<open>det_att(lya1, lya2, acc)\<close>. Adding \<^verbatim>\<open>acc\<close> to a \<^verbatim>\<open>None\<close> second exponent, or
  comparing it, raises \<^verbatim>\<open>TypeError\<close>.\<close>

definition det_att :: "pyval \<Rightarrow> pyval \<Rightarrow> npfloat \<Rightarrow> pyerr + int" where
  "det_att lya1 lya2 acc =
     (case lya1 of
        PNone \<Rightarrow> Inr 5
      | PFloat l1 \<Rightarrow>
          if np_less l1 (np_sub (Fin 0) acc) then
            (case lya2 of
               PNone \<Rightarrow> Inl TypeError
             | PFloat l2 \<Rightarrow> if np_less (np_add l2 acc) l1 then Inr 0 else Inr 1)
          else if np_less (np_neg acc) l1 \<and> np_less l1 acc then Inr 2
          else if np_less (Fin 0) l1 then
            (case lya2 of
               PNone \<Rightarrow> Inl TypeError
             | PFloat l2 \<Rightarrow> if np_less l2 acc then Inr 3 else Inr 4)
          else Inr 5)"

section \<open>Vector operations\<close>

text \<open>A vector is a one-dimensional numpy array. Reading a list at an index past its
  end raises \<^verbatim>\<open>IndexError\<close>; only non-negative indices occur.\<close>

type_synonym vec = "npfloat list"

definition py_index :: "'a list \<Rightarrow> nat \<Rightarrow> pyerr + 'a" where
  "py_index xs i = (if i < length xs then Inr (xs ! i) else Inl IndexError)"

text \<open>\<^verbatim>\<open>sum(values)\<close> adds from the left, starting at 0.\<close>

definition py_sum :: "npfloat list \<Rightarrow> npfloat" where
  "py_sum values = foldl np_add (Fin 0) values"

definition norm_vect :: "vec \<Rightarrow> npfloat" where
  "norm_vect vector = py_sum (map (\<lambda>i. np_mul i i) vector)"

text \<open>\<^verbatim>\<open>vect2[i]\<close> for \<^verbatim>\<open>i in range(len(vect1))\<close> raises when \<^verbatim>\<open>vect2\<close> is the shorter.\<close>

definition inner_vect :: "vec \<Rightarrow> vec \<Rightarrow> pyerr + npfloat" where
  "inner_vect vect1 vect2 =
     (if length vect2 < length vect1 then Inl IndexError
      else Inr (py_sum (map (\<lambda>i. np_mul (vect1 ! i) (vect2 ! i)) [0..<length vect1])))"

text \<open>For an empty \<^verbatim>\<open>vect1\<close> both sums are the Python integer 0 and the division raises;
  otherwise they are numpy floats and the division follows \<^const>\<open>np_div\<close>.\<close>

definition proj_vect :: "vec \<Rightarrow> vec \<Rightarrow> pyerr + vec" where
  "proj_vect vect1 vect2 =
     (case inner_vect vect1 vect2 of
        Inl e \<Rightarrow> Inl e
      | Inr ip \<Rightarrow>
          if vect1 = [] then Inl ZeroDivisionError
          else Inr (map (np_mul (np_div ip (norm_vect vect1))) vect1))"

definition basis :: "nat \<Rightarrow> vec list" where
  "basis dm = map (\<lambda>i. (replicate dm (Fin 0))[i := np_add (Fin 0) (Fin 1)]) [0..<dm]"

text \<open>Array subtraction: equal shapes elementwise, a one-element array is broadcast,
  anything else raises \<^verbatim>\<open>ValueError\<close>.\<close>

definition np_vsub :: "vec \<Rightarrow> vec \<Rightarrow> pyerr + vec" where
  "np_vsub xs ys =
     (if length xs = length ys then Inr (map2 np_sub xs ys)
      else if length ys = 1 then Inr (map (\<lambda>x. np_sub x (hd ys)) xs)
      else if length xs = 1 then Inr (map (\<lambda>y. np_sub (hd xs) y) ys)
      else Inl ValueError)"

section \<open>Vector operations in float64 arithmetic\<close>

text \<open>
  The operations above compute finite values exactly. Whether \<^verbatim>\<open>proj_vect(v, v)\<close> returns
  \<open>v\<close> bit for bit depends on the rounding of each operation, so the three vector
  functions it involves are given here a second time with every arithmetic result
  rounded to float64: to the nearest value of the binary64 grid, ties to the even
  significand, subnormal below \<open>2\<^sup>-\<^sup>1\<^sup>0\<^sup>2\<^sup>2\<close>, infinite from \<open>2\<^sup>1\<^sup>0\<^sup>2\<^sup>4\<close> on. The sign of a
  zero is not modelled.
\<close>

definition round_half_even :: "real \<Rightarrow> int" where
  "round_half_even q =
     (let f = \<lfloor>q\<rfloor>; d = q - of_int f
      in if d < 1/2 then f else if 1/2 < d then f + 1 else if even f then f else f + 1)"

text \<open>The spacing of the float64 values around \<open>x\<close>.\<close>

definition f64_ulp :: "real \<Rightarrow> real" where
  "f64_ulp x =
     (if \<bar>x\<bar> < 2 powi (- 1022) then 2 powi (- 1074) else 2 powi (\<lfloor>log 2 \<bar>x\<bar>\<rfloor> - 52))"

definition f64_round :: "real \<Rightarrow> npfloat" where
  "f64_round x =
     (let y = of_int (round_half_even (x / f64_ulp x)) * f64_ulp x
      in if 2 powi 1024 \<le> y then PInf else if y \<le> - (2 powi 1024) then NInf else Fin y)"

definition f64_of :: "npfloat \<Rightarrow> npfloat" where
  "f64_of x = (case x of Fin r \<Rightarrow> f64_round r | _ \<Rightarrow> x)"

definition f64_add :: "npfloat \<Rightarrow> npfloat \<Rightarrow> npfloat" where
  "f64_add x y = f64_of (np_add x y)"

definition f64_mul :: "npfloat \<Rightarrow> npfloat \<Rightarrow> npfloat" where
  "f64_mul x y = f64_of (np_mul x y)"

definition f64_div :: "npfloat \<Rightarrow> npfloat \<Rightarrow> npfloat" where
  "f64_div x y = f64_of (np_div x y)"

text \<open>\<^verbatim>\<open>sum\<close>, \<^verbatim>\<open>norm_vect\<close>, \<^verbatim>\<open>inner_vect\<close> and \<^verbatim>\<open>proj_vect\<close> with these operations.\<close>

definition py_sum_f64 :: "npfloat list \<Rightarrow> npfloat" where
  "py_sum_f64 values = foldl f64_add (Fin 0) values"

definition norm_vect_f64 :: "vec \<Rightarrow> npfloat" where
  "norm_vect_f64 vector = py_sum_f64 (map (\<lambda>i. f64_mul i i) vector)"

definition inner_vect_f64 :: "vec \<Rightarrow> vec \<Rightarrow> pyerr + npfloat" where
  "inner_vect_f64 vect1 vect2 =
     (if length vect2 < length vect1 then Inl IndexError
      else Inr (py_sum_f64 (map (\<lambda>i. f64_mul (vect1 ! i) (vect2 ! i)) [0..<length vect1])))"

definition proj_vect_f64 :: "vec \<Rightarrow> vec \<Rightarrow> pyerr + vec" where
  "proj_vect_f64 vect1 vect2 =
     (case inner_vect_f64 vect1 vect2 of
        Inl e \<Rightarrow> Inl e
      | Inr ip \<Rightarrow>
          if vect1 = [] then Inl ZeroDivisionError
          else Inr (map (f64_mul (f64_div ip (norm_vect_f64 vect1))) vect1))"

section \<open>The orthogonalizer\<close>

text \<open>The inner loop \<^verbatim>\<open>for j in range(v)\<close> of \<^verbatim>\<open>Gram_Schmidt\<close>: every pass overwrites
  \<^verbatim>\<open>new_vect\<close> (\<open>None\<close> while it is unbound).\<close>

fun GS_inner :: "vec list \<Rightarrow> nat \<Rightarrow> nat list \<Rightarrow> vec option \<Rightarrow> pyerr + vec option" where
  "GS_inner vectors v [] new_vect = Inr new_vect"
| "GS_inner vectors v (j # js) new_vect =
     (case proj_vect (vectors ! j) (vectors ! v) of
        Inl e \<Rightarrow> Inl e
      | Inr p \<Rightarrow>
          (case np_vsub (vectors ! v) p of
             Inl e \<Rightarrow> Inl e
           | Inr w \<Rightarrow> GS_inner vectors v js (Some w)))"

text \<open>The outer loop \<^verbatim>\<open>for v in range(1, len(vectors))\<close>, appending to \<^verbatim>\<open>basis\<close>.\<close>

fun GS_outer :: "vec list \<Rightarrow> nat list \<Rightarrow> vec option \<Rightarrow> vec list \<Rightarrow> pyerr + vec list" where
  "GS_outer vectors [] new_vect bas = Inr bas"
| "GS_outer vectors (v # vs) new_vect bas =
     (case GS_inner vectors v [0..<v] new_vect of
        Inl e \<Rightarrow> Inl e
      | Inr None \<Rightarrow> Inl UnboundLocalError
      | Inr (Some w) \<Rightarrow> GS_outer vectors vs (Some w) (bas @ [w]))"

definition Gram_Schmidt :: "vec list \<Rightarrow> pyerr + vec list" where
  "Gram_Schmidt vectors =
     (case vectors of
        [] \<Rightarrow> Inl IndexError
      | v0 # _ \<Rightarrow> GS_outer vectors [1..<length vectors] None [v0])"

section \<open>The exponent iterator\<close>

type_synonym mat = "(npfloat \<times> npfloat) \<times> (npfloat \<times> npfloat)"

text \<open>\<^verbatim>\<open>np.array([[-2*A*x, 1], [B, 0]])\<close>\<close>

definition jacobian :: "npfloat \<Rightarrow> npfloat \<Rightarrow> npfloat \<Rightarrow> mat" where
  "jacobian A B x = ((np_mul (np_mul (Fin (- 2)) A) x, Fin 1), (B, Fin 0))"

text \<open>\<^verbatim>\<open>np.matmul(J, b)\<close> of the 2x2 matrix with a one-dimensional array: the array must
  have two entries.\<close>

fun matmul :: "mat \<Rightarrow> vec \<Rightarrow> pyerr + vec" where
  "matmul ((a, b), (c, d)) [x, y] =
     Inr [np_add (np_mul a x) (np_mul b y), np_add (np_mul c x) (np_mul d y)]"
| "matmul J w = Inl ValueError"

text \<open>A list comprehension whose element expression may raise.\<close>

fun map_err :: "('a \<Rightarrow> pyerr + 'b) \<Rightarrow> 'a list \<Rightarrow> pyerr + 'b list" where
  "map_err f [] = Inr []"
| "map_err f (x # xs) =
     (case f x of
        Inl e \<Rightarrow> Inl e
      | Inr y \<Rightarrow> (case map_err f xs of Inl e \<Rightarrow> Inl e | Inr ys \<Rightarrow> Inr (y # ys)))"

text \<open>The loop \<^verbatim>\<open>for i in range(dim)\<close> that adds the logarithm of each norm to
  \<^verbatim>\<open>exponents\<close> and divides the vector by its norm.\<close>

fun accumulate :: "nat list \<Rightarrow> vec list \<Rightarrow> npfloat list \<Rightarrow> pyerr + (vec list \<times> npfloat list)" where
  "accumulate [] u_nk exponents = Inr (u_nk, exponents)"
| "accumulate (i # is) u_nk exponents =
     (if i < length u_nk \<and> i < length exponents then
        (let u_i = u_nk ! i; norm_v = norm_vect u_i
         in accumulate is
              (u_nk[i := map (\<lambda>c. np_div c norm_v) u_i])
              (exponents[i := np_add (exponents ! i) (np_log norm_v)]))
      else Inl IndexError)"

text \<open>Propagation with the current \<^verbatim>\<open>J\<close>, orthogonalization and accumulation: the
  statements before the loop (with \<^verbatim>\<open>basis\<close> for \<^verbatim>\<open>u_nk\<close>) and the first three
  statements of the loop body.\<close>

definition Lyapunov_step ::
  "nat \<Rightarrow> mat \<Rightarrow> vec list \<Rightarrow> npfloat list \<Rightarrow> pyerr + (vec list \<times> npfloat list)" where
  "Lyapunov_step dm J u_nk exponents =
     (case map_err (matmul J) u_nk of
        Inl e \<Rightarrow> Inl e
      | Inr v_nk \<Rightarrow>
          (case map_err (py_index v_nk) [0..<dm] of
             Inl e \<Rightarrow> Inl e
           | Inr vs \<Rightarrow>
               (case Gram_Schmidt vs of
                  Inl e \<Rightarrow> Inl e
                | Inr u \<Rightarrow> accumulate [0..<dm] u exponents)))"

text \<open>The loop \<^verbatim>\<open>for n in range(1, N)\<close>: the body propagates with the \<^verbatim>\<open>J\<close> it finds
  and assigns \<^verbatim>\<open>J\<close> from \<^verbatim>\<open>xvalues[n]\<close> as its last statement.\<close>

fun Lyapunov_loop ::
  "nat \<Rightarrow> npfloat \<Rightarrow> npfloat \<Rightarrow> npfloat list \<Rightarrow> nat list \<Rightarrow> mat \<Rightarrow> vec list \<Rightarrow> npfloat list
   \<Rightarrow> pyerr + (mat \<times> vec list \<times> npfloat list)" where
  "Lyapunov_loop dm A B xvalues [] J u_nk exponents = Inr (J, u_nk, exponents)"
| "Lyapunov_loop dm A B xvalues (n # ns) J u_nk exponents =
     (case Lyapunov_step dm J u_nk exponents of
        Inl e \<Rightarrow> Inl e
      | Inr (u, ex) \<Rightarrow>
          (case py_index xvalues n of
             Inl e \<Rightarrow> Inl e
           | Inr x \<Rightarrow> Lyapunov_loop dm A B xvalues ns (jacobian A B x) u ex))"

definition Lyapunov :: "int \<Rightarrow> vec list \<Rightarrow> npfloat list \<Rightarrow> npfloat \<Rightarrow> npfloat \<Rightarrow> pyerr + npfloat list" where
  "Lyapunov N bas xvalues A B =
     (let dm = length bas; exponents = replicate dm (Fin 0)
      in case py_index xvalues 0 of
           Inl e \<Rightarrow> Inl e
         | Inr x0 \<Rightarrow>
             (case Lyapunov_step dm (jacobian A B x0) bas exponents of
                Inl e \<Rightarrow> Inl e
              | Inr (u, ex) \<Rightarrow>
                  (case Lyapunov_loop dm A B xvalues [1..<nat N] (jacobian A B x0) u ex of
                     Inl e \<Rightarrow> Inl e
                   | Inr (J, u', ex') \<Rightarrow>
                       map_err (\<lambda>i. map_sum id (\<lambda>e. np_div e (Fin (of_int N))) (py_index ex' i))
                         [0..<dm])))"

text \<open>The iteration as the specification words it, for comparison: the same first step,
  then every step \<open>n = 1..N-1\<close> first rebuilds the Jacobian from \<^verbatim>\<open>orbitXValues[n]\<close>
  and then propagates with it.\<close>

fun Lyapunov_loop_spec ::
  "nat \<Rightarrow> npfloat \<Rightarrow> npfloat \<Rightarrow> npfloat list \<Rightarrow> nat list \<Rightarrow> vec list \<Rightarrow> npfloat list
   \<Rightarrow> pyerr + (vec list \<times> npfloat list)" where
  "Lyapunov_loop_spec dm A B xvalues [] u_nk exponents = Inr (u_nk, exponents)"
| "Lyapunov_loop_spec dm A B xvalues (n # ns) u_nk exponents =
     (case py_index xvalues n of
        Inl e \<Rightarrow> Inl e
      | Inr x \<Rightarrow>
          (case Lyapunov_step dm (jacobian A B x) u_nk exponents of
             Inl e \<Rightarrow> Inl e
           | Inr (u, ex) \<Rightarrow> Lyapunov_loop_spec dm A B xvalues ns u ex))"

definition Lyapunov_spec :: "int \<Rightarrow> vec list \<Rightarrow> npfloat list \<Rightarrow> npfloat \<Rightarrow> npfloat \<Rightarrow> pyerr + npfloat list" where
  "Lyapunov_spec N bas xvalues A B =
     (let dm = length bas; exponents = replicate dm (Fin 0)
      in case py_index xvalues 0 of
           Inl e \<Rightarrow> Inl e
         | Inr x0 \<Rightarrow>
             (case Lyapunov_step dm (jacobian A B x0) bas exponents of
                Inl e \<Rightarrow> Inl e
              | Inr (u, ex) \<Rightarrow>
                  (case Lyapunov_loop_spec dm A B xvalues [1..<nat N] u ex of
                     Inl e \<Rightarrow> Inl e
                   | Inr (u', ex') \<Rightarrow>
                       map_err (\<lambda>i. map_sum id (\<lambda>e. np_div e (Fin (of_int N))) (py_index ex' i))
                         [0..<dm])))"

section \<open>External collaborators and the call trace\<close>

text \<open>
  \<^verbatim>\<open>Henon\<close>, \<^verbatim>\<open>ge.determine_point\<close>, \<^verbatim>\<open>ge.determine_period\<close> and \<^verbatim>\<open>ge.solve_eig_vals\<close>
  are imported from modules outside this file. They are parameters of the model, with
  the result shapes the callers rely on: the orbit generator returns two lists or
  \<^verbatim>\<open>None\<close> in their place, the fixed-point search a point or \<^verbatim>\<open>None\<close>, the cycle search
  a pair of a period and the x-coordinates of the cycle or \<^verbatim>\<open>None\<close>, the eigenvalue
  solver two real or complex numbers. Each of them may also raise. Every call is
  recorded, with its arguments, in a trace returned beside the result.
\<close>

datatype eigval = EigReal npfloat | EigComplex complex

fun py_abs :: "eigval \<Rightarrow> npfloat" where
  "py_abs (EigReal x) = np_abs x"
| "py_abs (EigComplex z) = Fin (cmod z)"

datatype event =
  Call_Henon npfloat npfloat int npfloat npfloat bool
  | Call_determine_point "npfloat list option" "npfloat list option"
  | Call_determine_period "npfloat list option" "npfloat list option"
  | Call_solve_eig_vals npfloat npfloat npfloat

record oracles =
  Henon :: "npfloat \<Rightarrow> npfloat \<Rightarrow> int \<Rightarrow> npfloat \<Rightarrow> npfloat \<Rightarrow> bool
            \<Rightarrow> pyerr + (npfloat list option \<times> npfloat list option)"
  determine_point :: "npfloat list option \<Rightarrow> npfloat list option
            \<Rightarrow> pyerr + (npfloat \<times> npfloat) option"
  determine_period :: "npfloat list option \<Rightarrow> npfloat list option
            \<Rightarrow> pyerr + (int \<times> npfloat list) option"
  solve_eig_vals :: "npfloat \<Rightarrow> npfloat \<Rightarrow> npfloat \<Rightarrow> pyerr + (eigval \<times> eigval)"

type_synonym 'a traced = "event list \<times> (pyerr + 'a)"

definition return_tr :: "'a \<Rightarrow> 'a traced" where
  "return_tr x = ([], Inr x)"

definition raise_tr :: "pyerr \<Rightarrow> 'a traced" where
  "raise_tr e = ([], Inl e)"

definition lift_tr :: "pyerr + 'a \<Rightarrow> 'a traced" where
  "lift_tr r = ([], r)"

definition prepend_tr :: "event list \<Rightarrow> 'a traced \<Rightarrow> 'a traced" where
  "prepend_tr t m = (t @ fst m, snd m)"

text \<open>Sequencing: an exception ends the computation, keeping the calls made so far.\<close>

definition bind_tr :: "'a traced \<Rightarrow> ('a \<Rightarrow> 'b traced) \<Rightarrow> 'b traced" where
  "bind_tr m f = (case snd m of Inl e \<Rightarrow> (fst m, Inl e) | Inr x \<Rightarrow> prepend_tr (fst m) (f x))"

section \<open>Closed-form estimators\<close>

definition lyapunov_point :: "oracles \<Rightarrow> npfloat \<Rightarrow> npfloat \<Rightarrow> npfloat \<Rightarrow> npfloat list traced" where
  "lyapunov_point orc xp av bv =
     bind_tr ([Call_solve_eig_vals xp av bv], solve_eig_vals orc xp av bv)
       (\<lambda>(sol1, sol2).
          let lya1 = np_log (py_abs sol1); lya2 = np_log (py_abs sol2)
          in return_tr [py_max lya1 lya2, py_min lya1 lya2])"

text \<open>\<^verbatim>\<open>np.mean\<close> of a list: the sum over the length, \<^verbatim>\<open>nan\<close> for the empty list.\<close>

definition np_mean :: "npfloat list \<Rightarrow> npfloat" where
  "np_mean xs = (if xs = [] then NaN else np_div (py_sum xs) (Fin (real (length xs))))"

text \<open>The loop \<^verbatim>\<open>for x in xpoints\<close> of \<^verbatim>\<open>lyapunov_period\<close>, appending to \<^verbatim>\<open>lya1\<close> and
  \<^verbatim>\<open>lya2\<close>; unpacking a list that has not two elements raises \<^verbatim>\<open>ValueError\<close>.\<close>

fun period_loop ::
  "oracles \<Rightarrow> npfloat \<Rightarrow> npfloat \<Rightarrow> npfloat list \<Rightarrow> npfloat list \<Rightarrow> npfloat list
   \<Rightarrow> (npfloat list \<times> npfloat list) traced" where
  "period_loop orc av bv [] lya1 lya2 = ([], Inr (lya1, lya2))"
| "period_loop orc av bv (x # xs) lya1 lya2 =
     (case lyapunov_point orc x av bv of
        (t, Inl e) \<Rightarrow> (t, Inl e)
      | (t, Inr [lya_max, lya_min]) \<Rightarrow>
          prepend_tr t (period_loop orc av bv xs (lya1 @ [lya_max]) (lya2 @ [lya_min]))
      | (t, Inr _) \<Rightarrow> (t, Inl ValueError))"

definition lyapunov_period :: "oracles \<Rightarrow> npfloat list \<Rightarrow> npfloat \<Rightarrow> npfloat \<Rightarrow> npfloat list traced" where
  "lyapunov_period orc xpoints av bv =
     bind_tr (period_loop orc av bv xpoints [] [])
       (\<lambda>(lya1, lya2).
          return_tr [py_max (np_mean lya1) (np_mean lya2), py_min (np_mean lya1) (np_mean lya2)])"

section \<open>The dispatcher\<close>

text \<open>The arguments \<^verbatim>\<open>A\<close> and \<^verbatim>\<open>B\<close> by the \<^verbatim>\<open>isinstance\<close> tests made on them: a
  \<^verbatim>\<open>float\<close> or \<^verbatim>\<open>int\<close>, a (one-dimensional) \<^verbatim>\<open>np.ndarray\<close>, or anything else.\<close>

datatype param = PScalar npfloat | PArray "npfloat list" | POther

text \<open>What \<^verbatim>\<open>calc_lya_henon\<close> returns: \<^verbatim>\<open>None\<close>, one list of exponents, two lists, or
  two lists of lists.\<close>

datatype result =
  RNone
  | RList "npfloat list"
  | RSeqs "pyval list" "pyval list"
  | RGrid "pyval list list" "pyval list list"

text \<open>\<^verbatim>\<open>xs[c:]\<close>; a negative \<^verbatim>\<open>c\<close> counts from the end.\<close>

definition py_slice_from :: "'a list \<Rightarrow> int \<Rightarrow> 'a list" where
  "py_slice_from xs c = (if 0 \<le> c then drop (nat c) xs else drop (nat (int (length xs) + c)) xs)"

text \<open>\<^verbatim>\<open>max\<close> and \<^verbatim>\<open>min\<close> of a list scan from the left and raise on the empty list.\<close>

fun py_max_list :: "npfloat list \<Rightarrow> pyerr + npfloat" where
  "py_max_list [] = Inl ValueError"
| "py_max_list (x # xs) = Inr (foldl py_max x xs)"

fun py_min_list :: "npfloat list \<Rightarrow> pyerr + npfloat" where
  "py_min_list [] = Inl ValueError"
| "py_min_list (x # xs) = Inr (foldl py_min x xs)"

text \<open>
  The body that the three array branches repeat for one pair \<^verbatim>\<open>(a, b)\<close>. It yields
  the two values appended to the max-branch and min-branch lists. \<open>basisVects\<close> is
  \<open>None\<close> where the local variable \<^verbatim>\<open>basisVects\<close> has not been assigned: only the
  array/array branch assigns it before its loops.
\<close>

definition sweep_cell ::
  "oracles \<Rightarrow> vec list option \<Rightarrow> int \<Rightarrow> int \<Rightarrow> npfloat list \<Rightarrow> bool \<Rightarrow> npfloat \<Rightarrow> npfloat
   \<Rightarrow> (pyval \<times> pyval) traced" where
  "sweep_cell orc basisVects Ninit cutoff start dv a b =
     bind_tr (lift_tr (py_index start 0)) (\<lambda>x0.
     bind_tr (lift_tr (py_index start 1)) (\<lambda>y0.
     bind_tr ([Call_Henon x0 y0 Ninit a b dv], Henon orc x0 y0 Ninit a b dv) (\<lambda>(xvalues, yvalues).
       case xvalues of
         None \<Rightarrow> return_tr (PNone, PNone)
       | Some xs \<Rightarrow>
           bind_tr ([Call_determine_point xvalues yvalues], determine_point orc xvalues yvalues)
             (\<lambda>point_attr.
           bind_tr ([Call_determine_period xvalues yvalues], determine_period orc xvalues yvalues)
             (\<lambda>lim_cycle.
             case point_attr of
               Some pt \<Rightarrow>
                 bind_tr (lyapunov_point orc (fst pt) a b) (\<lambda>r1.
                 bind_tr (lift_tr (py_index r1 0)) (\<lambda>e1.
                 bind_tr (lyapunov_point orc (fst pt) a b) (\<lambda>r2.
                 bind_tr (lift_tr (py_index r2 1)) (\<lambda>e2.
                   return_tr (PFloat e1, PFloat e2)))))
             | None \<Rightarrow>
                 (case lim_cycle of
                    Some cyc \<Rightarrow>
                      bind_tr (lyapunov_period orc (snd cyc) a b) (\<lambda>r1.
                      bind_tr (lift_tr (py_index r1 0)) (\<lambda>e1.
                      bind_tr (lyapunov_period orc (snd cyc) a b) (\<lambda>r2.
                      bind_tr (lift_tr (py_index r2 1)) (\<lambda>e2.
                        return_tr (PFloat e1, PFloat e2)))))
                  | None \<Rightarrow>
                      (case basisVects of
                         None \<Rightarrow> raise_tr UnboundLocalError
                       | Some bas \<Rightarrow>
                           bind_tr (lift_tr (Lyapunov (Ninit - cutoff) bas (py_slice_from xs cutoff) a b))
                             (\<lambda>lya.
                           bind_tr (lift_tr (py_index (map PFloat lya) 0)) (\<lambda>lya0.
                             if lya0 \<noteq> PNone then
                               bind_tr (lift_tr (py_max_list lya)) (\<lambda>mx.
                               bind_tr (lift_tr (py_min_list lya)) (\<lambda>mn.
                                 return_tr (PFloat mx, PFloat mn)))
                             else return_tr (PNone, PNone))))))))))"

text \<open>A loop over the values of one swept parameter, appending to both lists.\<close>

fun sweep ::
  "(npfloat \<Rightarrow> (pyval \<times> pyval) traced) \<Rightarrow> npfloat list \<Rightarrow> pyval list \<Rightarrow> pyval list
   \<Rightarrow> (pyval list \<times> pyval list) traced" where
  "sweep cell [] exp1 exp2 = ([], Inr (exp1, exp2))"
| "sweep cell (p # ps) exp1 exp2 =
     (case cell p of
        (t, Inl e) \<Rightarrow> (t, Inl e)
      | (t, Inr (c1, c2)) \<Rightarrow> prepend_tr t (sweep cell ps (exp1 @ [c1]) (exp2 @ [c2])))"

text \<open>The outer loop of the array/array branch: one row of each grid per value of
  \<^verbatim>\<open>a\<close>.\<close>

fun sweep_grid ::
  "(npfloat \<Rightarrow> npfloat \<Rightarrow> (pyval \<times> pyval) traced) \<Rightarrow> npfloat list \<Rightarrow> npfloat list
   \<Rightarrow> pyval list list \<Rightarrow> pyval list list \<Rightarrow> (pyval list list \<times> pyval list list) traced" where
  "sweep_grid cell [] Bs all_exp1 all_exp2 = ([], Inr (all_exp1, all_exp2))"
| "sweep_grid cell (a # As) Bs all_exp1 all_exp2 =
     (case sweep (cell a) Bs [] [] of
        (t, Inl e) \<Rightarrow> (t, Inl e)
      | (t, Inr (a_exp1, a_exp2)) \<Rightarrow>
          prepend_tr t (sweep_grid cell As Bs (all_exp1 @ [a_exp1]) (all_exp2 @ [a_exp2])))"

definition calc_lya_henon ::
  "oracles \<Rightarrow> int \<Rightarrow> int \<Rightarrow> npfloat list \<Rightarrow> param \<Rightarrow> param \<Rightarrow> bool \<Rightarrow> result traced" where
  "calc_lya_henon orc Ninit cutoff start A B dv =
     (case (A, B) of
        (PArray As, PArray Bs) \<Rightarrow>
          (let basisVects = basis (length start)
           in bind_tr (sweep_grid (sweep_cell orc (Some basisVects) Ninit cutoff start dv) As Bs [] [])
                (\<lambda>(all_exp1, all_exp2). return_tr (RGrid all_exp1 all_exp2)))
      | (PArray As, PScalar b) \<Rightarrow>
          bind_tr (sweep (\<lambda>a. sweep_cell orc None Ninit cutoff start dv a b) As [] [])
            (\<lambda>(all_exp1, all_exp2). return_tr (RSeqs all_exp1 all_exp2))
      | (PScalar a, PArray Bs) \<Rightarrow>
          bind_tr (sweep (\<lambda>b. sweep_cell orc None Ninit cutoff start dv a b) Bs [] [])
            (\<lambda>(all_exp1, all_exp2). return_tr (RSeqs all_exp1 all_exp2))
      | (PScalar a, PScalar b) \<Rightarrow>
          bind_tr (lift_tr (py_index start 0)) (\<lambda>x0.
          bind_tr (lift_tr (py_index start 1)) (\<lambda>y0.
          bind_tr ([Call_Henon x0 y0 Ninit a b dv], Henon orc x0 y0 Ninit a b dv) (\<lambda>(xvalues, yvalues).
            let basisVects = basis (length start)
            in bind_tr ([Call_determine_point xvalues yvalues], determine_point orc xvalues yvalues)
                 (\<lambda>point_attr.
               bind_tr ([Call_determine_period xvalues yvalues], determine_period orc xvalues yvalues)
                 (\<lambda>lim_cycle.
                 case xvalues of
                   None \<Rightarrow> return_tr RNone
                 | Some xs \<Rightarrow>
                     (case point_attr of
                        Some pt \<Rightarrow>
                          bind_tr (lyapunov_point orc (fst pt) a b) (\<lambda>r. return_tr (RList r))
                      | None \<Rightarrow>
                          (case lim_cycle of
                             Some cyc \<Rightarrow>
                               bind_tr (lyapunov_period orc (snd cyc) a b) (\<lambda>r. return_tr (RList r))
                           | None \<Rightarrow>
                               bind_tr (lift_tr (Lyapunov (Ninit - cutoff) basisVects (py_slice_from xs cutoff) a b))
                                 (\<lambda>lya. return_tr (RList lya)))))))))
      | _ \<Rightarrow> raise_tr ValueError)"

section \<open>Properties of the classifier\<close>

lemma det_att_open_band:
  "np_less (np_neg acc) l1 \<Longrightarrow> np_less l1 acc \<Longrightarrow> det_att (PFloat l1) lya2 acc = Inr 2"
  by (cases l1; cases acc) (auto simp: det_att_def np_sub_def)

lemma det_att_lower_boundary:
  "0 < t \<Longrightarrow> det_att (PFloat (Fin (- t))) lya2 (Fin t) = Inr 5"
  by (simp add: det_att_def np_sub_def)

text \<open>
  C2. With tolerance \<open>1/10\<close> and \<open>lya1 = -1/10\<close>, the boundary value of the band
  \<open>-tolerance \<le> lya1 < tolerance\<close>, and \<open>lya2 = -5 \<le> lya1\<close>, the classifier returns
  label 5 (no attractor) and not label 2 (invariant circle): both tests around the
  band are strict, so the boundary matches no branch before the final \<^verbatim>\<open>else\<close>.
\<close>

theorem det_att_boundary_is_no_attractor:
  "det_att (PFloat (Fin (- (1/10)))) (PFloat (Fin (- 5))) (Fin (1/10)) = Inr 5
   \<and> det_att (PFloat (Fin (- (1/10)))) (PFloat (Fin (- 5))) (Fin (1/10)) \<noteq> Inr 2"
  by (simp add: det_att_def np_sub_def)

section \<open>Properties of the vector operations\<close>

lemma foldl_np_add_Fin: "foldl np_add (Fin a) (map (\<lambda>x. Fin (f x)) xs) = Fin (a + (\<Sum>x\<leftarrow>xs. f x))"
  by (induction xs arbitrary: a) (simp_all add: add.assoc)

lemma py_sum_Fin: "py_sum (map (\<lambda>x. Fin (f x)) xs) = Fin (\<Sum>x\<leftarrow>xs. f x)"
  by (simp add: py_sum_def foldl_np_add_Fin)

lemma round_half_even_of_int: "round_half_even (of_int m) = m"
  by (simp add: round_half_even_def)

lemma round_half_even_small: "\<bar>q\<bar> < 1/2 \<Longrightarrow> round_half_even q = 0"
proof (cases "0 \<le> q")
  case True
  assume "\<bar>q\<bar> < 1/2"
  with True have "\<lfloor>q\<rfloor> = 0" by (simp add: floor_eq_iff)
  with \<open>\<bar>q\<bar> < 1/2\<close> True show ?thesis by (simp add: round_half_even_def)
next
  case False
  assume a: "\<bar>q\<bar> < 1/2"
  with False have "\<lfloor>q\<rfloor> = - 1" by (simp add: floor_eq_iff)
  with a False show ?thesis by (simp add: round_half_even_def)
qed

lemma f64_ulp_pos: "0 < f64_ulp x"
  by (simp add: f64_ulp_def)

lemma f64_round_tiny:
  assumes "\<bar>x\<bar> < 2 powi (- 1075)"
  shows "f64_round x = Fin 0"
proof -
  have "(2::real) powi (- 1075) < 2 powi (- 1022)" by (intro power_int_strict_increasing) simp_all
  with assms have u: "f64_ulp x = 2 powi (- 1074)" by (simp add: f64_ulp_def)
  have "\<bar>x / 2 powi (- 1074)\<bar> = \<bar>x\<bar> * 2 powi 1074"
    by (simp add: power_int_minus abs_mult field_simps)
  also have "\<dots> < 2 powi (- 1075) * 2 powi 1074"
    using assms by (simp add: mult_strict_right_mono)
  also have "(2::real) powi (- 1075) * 2 powi 1074 = 2 powi (- 1)"
    by (simp add: power_int_add [symmetric])
  finally have "\<bar>x / 2 powi (- 1074)\<bar> < 1/2" by (simp add: power_int_minus)
  then have "round_half_even (x / 2 powi (- 1074)) = 0" by (rule round_half_even_small)
  then show ?thesis by (simp add: f64_round_def u)
qed

lemma log2_powi: "log 2 ((2::real) powi k) = of_int k"
proof -
  have "(2::real) powr real_of_int k = 2 powi k" by (rule powr_real_of_int') simp_all
  then have "log 2 ((2::real) powi k) = log 2 (2 powr real_of_int k)" by simp
  then show ?thesis by simp
qed

lemma f64_round_0: "f64_round 0 = Fin 0"
  by (rule f64_round_tiny) simp

lemma f64_round_pow2:
  assumes "- 1022 \<le> k" "k \<le> 1023"
  shows "f64_round (2 powi k) = Fin (2 powi k)"
proof -
  have "(2::real) powi (- 1022) \<le> 2 powi k"
    using assms(1) by (intro power_int_increasing) simp_all
  then have u: "f64_ulp (2 powi k) = 2 powi (k - 52)"
    by (simp add: f64_ulp_def log2_powi)
  have "(2::real) powi k / 2 powi (k - 52) = 2 powi 52"
    by (simp add: power_int_diff)
  also have "(2::real) powi 52 = of_int (2 ^ 52)" by simp
  finally have q: "round_half_even (2 powi k / 2 powi (k - 52)) = 2 ^ 52"
    by (simp only: round_half_even_of_int)
  have y: "of_int (2 ^ 52) * (2::real) powi (k - 52) = 2 powi k"
    using power_int_add [of "2::real" 52 "k - 52"] by simp
  have "(2::real) powi k < 2 powi 1024"
    using assms(2) by (intro power_int_strict_increasing) simp_all
  moreover have "- ((2::real) powi 1024) < 2 powi k"
    by (rule less_trans [of _ 0]) simp_all
  ultimately show ?thesis
    unfolding f64_round_def Let_def u q y by simp
qed

lemma f64_round_int:
  assumes "0 < n" "n < 2 ^ 53"
  shows "f64_round (of_int n) = Fin (of_int n)"
proof -
  define x where "x = real_of_int n"
  define e where "e = \<lfloor>log 2 x\<rfloor>"
  from assms have x1: "1 \<le> x" and x53: "x < 2 ^ 53" by (simp_all add: x_def)
  have "0 \<le> log 2 x" using x1 by simp
  then have e0: "0 \<le> e" by (simp add: e_def)
  have "log 2 x < 53" using x1 x53 by (simp add: log_less_iff)
  then have e52: "e \<le> 52" unfolding e_def by (simp add: floor_less_iff [symmetric] del: floor_less_iff) 
  define j where "j = nat (52 - e)"
  from e0 e52 have ej: "e - 52 = - int j" by (simp add: j_def)
  have ax: "\<bar>x\<bar> = x" using x1 by simp
  have p0: "(2::real) powi (- 1022) \<le> 2 powi 0" by (intro power_int_increasing) simp_all
  have nl: "\<not> x < 2 powi (- 1022)"
  proof
    assume "x < 2 powi (- 1022)"
    then have "x < 2 powi 0" using p0 by (rule less_le_trans)
    with x1 show False by simp
  qed
  have "f64_ulp x = 2 powi (e - 52)"
    by (simp only: f64_ulp_def ax nl if_False e_def)
  also have "\<dots> = 2 powi (- int j)" by (simp only: ej)
  also have "\<dots> = 1 / 2 ^ j" by (simp add: power_int_minus field_simps)
  finally have u: "f64_ulp x = 1 / 2 ^ j" .
  have q: "x / (1 / 2 ^ j) = of_int (n * 2 ^ j)" by (simp add: x_def)
  have y: "of_int (n * 2 ^ j) * (1 / 2 ^ j) = x" by (simp add: x_def)
  have p1: "(2::real) ^ 53 \<le> 2 powi 1024"
    using power_int_increasing [of 53 1024 "2::real"] by (simp only: power_int_numeral)
  have hi: "\<not> 2 powi 1024 \<le> x"
  proof
    assume "2 powi 1024 \<le> x"
    with p1 have "(2::real) ^ 53 \<le> x" by (rule order_trans)
    then show False using x53 by (rule leD [THEN notE])
  qed
  have p2: "(0::real) < 2 powi 1024" by (rule zero_less_power_int) simp
  have p3: "- ((2::real) powi 1024) < 0" by (simp only: neg_less_0_iff_less p2)
  have lo: "\<not> x \<le> - (2 powi 1024)"
  proof
    assume "x \<le> - (2 powi 1024)"
    then have "x < 0" using p3 by (rule le_less_trans)
    with x1 show False by simp
  qed
  show ?thesis
    unfolding x_def [symmetric] f64_round_def Let_def u q round_half_even_of_int y
    by (simp only: hi lo if_False)
qed

lemma map_index_eq: "map (\<lambda>i. f (rs ! i)) [0..<length rs] = map f rs"
  by (rule nth_equalityI) simp_all

lemma inner_vect_f64_self: "inner_vect_f64 v v = Inr (norm_vect_f64 v)"
  by (simp add: inner_vect_f64_def norm_vect_f64_def map_index_eq [of "\<lambda>x. f64_mul x x"])

lemma f64_round_1: "f64_round 1 = Fin 1"
  using f64_round_pow2 [of 0] by simp

text \<open>
  C5, for vectors whose sum of squares is finite and not zero. For a vector \<open>v\<close> of
  float64 components whose \<^verbatim>\<open>norm_vect(v)\<close>, as computed in float64, is a finite number
  other than zero, \<^verbatim>\<open>proj_vect(v, v)\<close> is \<open>v\<close>: \<^verbatim>\<open>inner_vect(v, v)\<close> is the same float as
  the norm, their quotient is exactly 1 and \<open>1 * v\<close> is \<open>v\<close>.
\<close>

theorem proj_vect_f64_self:
  assumes "\<forall>r\<in>set rs. f64_round r = Fin r"
    and "norm_vect_f64 (map Fin rs) = Fin s" and "s \<noteq> 0"
  shows "proj_vect_f64 (map Fin rs) (map Fin rs) = Inr (map Fin rs)"
proof -
  have ne: "rs \<noteq> []"
  proof
    assume "rs = []"
    with assms(2) have "s = 0" by (simp add: norm_vect_f64_def py_sum_f64_def)
    with assms(3) show False by simp
  qed
  have one: "f64_div (Fin s) (Fin s) = Fin 1"
    using assms(3) by (simp add: f64_div_def f64_of_def f64_round_1)
  have "map (f64_mul (Fin 1)) (map Fin rs) = map Fin rs"
    using assms(1) by (induction rs) (simp_all add: f64_mul_def f64_of_def)
  with ne one show ?thesis
    by (simp add: proj_vect_f64_def inner_vect_f64_self assms(2))
qed

theorem proj_vect_f64_self_witness:
  "proj_vect_f64 [Fin 3, Fin 4] [Fin 3, Fin 4] = Inr [Fin 3, Fin 4]"
proof -
  have r: "f64_round 3 = Fin 3" "f64_round 4 = Fin 4" "f64_round 9 = Fin 9"
    "f64_round 16 = Fin 16" "f64_round 25 = Fin 25"
    using f64_round_int [of 3] f64_round_int [of 4] f64_round_int [of 9]
      f64_round_int [of 16] f64_round_int [of 25] by simp_all
  have h1: "\<forall>r\<in>set [3, 4 :: real]. f64_round r = Fin r"
    by (simp add: r)
  have h2: "norm_vect_f64 (map Fin [3, 4]) = Fin 25"
    by (simp add: norm_vect_f64_def py_sum_f64_def f64_mul_def f64_add_def f64_of_def r)
  have h3: "(25 :: real) \<noteq> 0" by simp
  from proj_vect_f64_self [OF h1 h2 h3] show ?thesis by simp
qed

text \<open>
  C5 as stated fails where the squares underflow: \<open>2\<^sup>-\<^sup>6\<^sup>0\<^sup>0\<close> is a float64 and not zero,
  its square rounds to 0, so for \<open>v = [2\<^sup>-\<^sup>6\<^sup>0\<^sup>0, 0]\<close> both sums are 0, the quotient is
  \<^verbatim>\<open>nan\<close> and \<^verbatim>\<open>proj_vect(v, v)\<close> is \<^verbatim>\<open>[nan, nan]\<close>.
\<close>

theorem proj_vect_f64_self_underflow:
  "f64_round (2 powi (- 600)) = Fin (2 powi (- 600))
   \<and> (2::real) powi (- 600) \<noteq> 0
   \<and> proj_vect_f64 [Fin (2 powi (- 600)), Fin 0] [Fin (2 powi (- 600)), Fin 0] = Inr [NaN, NaN]
   \<and> proj_vect_f64 [Fin (2 powi (- 600)), Fin 0] [Fin (2 powi (- 600)), Fin 0]
       \<noteq> Inr [Fin (2 powi (- 600)), Fin 0]"
proof -
  have r: "f64_round (2 powi (- 600)) = Fin (2 powi (- 600))"
    by (rule f64_round_pow2) simp_all
  have nz: "(2::real) powi (- 600) \<noteq> 0" by (simp add: power_int_eq_0_iff)
  have sq: "(2::real) powi (- 600) * 2 powi (- 600) = 2 powi (- 1200)"
    using power_int_add [of "2::real" "- 600" "- 600"] by simp
  have "(2::real) powi (- 1200) < 2 powi (- 1075)"
    by (intro power_int_strict_increasing) simp_all
  moreover have "0 < (2::real) powi (- 1200)" by (rule zero_less_power_int) simp
  ultimately have "\<bar>(2::real) powi (- 1200)\<bar> < 2 powi (- 1075)"
    by (simp only: abs_of_pos)
  then have u: "f64_round (2 powi (- 1200)) = Fin 0" by (rule f64_round_tiny)
  have m: "f64_mul (Fin (2 powi (- 600))) (Fin (2 powi (- 600))) = Fin 0"
    unfolding f64_mul_def np_mul.simps sq f64_of_def by (simp only: npfloat.case u)
  have z: "f64_mul (Fin 0) (Fin 0) = Fin 0" "f64_add (Fin 0) (Fin 0) = Fin 0"
    by (simp_all add: f64_mul_def f64_add_def f64_of_def f64_round_0)
  have n: "norm_vect_f64 [Fin (2 powi (- 600)), Fin 0] = Fin 0"
    unfolding norm_vect_f64_def py_sum_f64_def list.map foldl.simps m z ..
  have d: "f64_div (Fin 0) (Fin 0) = NaN" by (simp add: f64_div_def f64_of_def)
  have nan: "f64_mul NaN x = NaN" for x by (simp add: f64_mul_def f64_of_def)
  have p: "proj_vect_f64 [Fin (2 powi (- 600)), Fin 0] [Fin (2 powi (- 600)), Fin 0] = Inr [NaN, NaN]"
    unfolding proj_vect_f64_def inner_vect_f64_self n by (simp only: sum.case list.simps if_False d list.map nan)
  from r nz p show ?thesis by simp
qed

section \<open>Properties of the orthogonalizer\<close>

lemma proj_vect_same_length:
  assumes "length u = length w" "u \<noteq> []"
  shows "\<exists>p. proj_vect u w = Inr p \<and> length p = length u"
  using assms by (simp add: proj_vect_def inner_vect_def)

lemma np_vsub_same_length: "length x = length p \<Longrightarrow> np_vsub x p = Inr (map2 np_sub x p)"
  by (simp add: np_vsub_def)

lemma GS_inner_last:
  assumes wf: "\<forall>u\<in>set vectors. length u = d" and d: "0 < d"
    and v: "v < length vectors" and js: "\<forall>i\<in>set (js @ [j]). i < length vectors"
  shows "\<exists>p. proj_vect (vectors ! j) (vectors ! v) = Inr p
             \<and> GS_inner vectors v (js @ [j]) nv = Inr (Some (map2 np_sub (vectors ! v) p))"
  using js
proof (induction js arbitrary: nv)
  case Nil
  then have j: "j < length vectors" by simp
  from wf j v have l: "length (vectors ! j) = d" "length (vectors ! v) = d" by simp_all
  with d obtain p where p: "proj_vect (vectors ! j) (vectors ! v) = Inr p" "length p = d"
    using proj_vect_same_length [of "vectors ! j" "vectors ! v"] by auto
  with l show ?case by (simp add: np_vsub_same_length)
next
  case (Cons i js)
  then have i: "i < length vectors" by simp
  from wf i v have l: "length (vectors ! i) = d" "length (vectors ! v) = d" by simp_all
  with d obtain q where q: "proj_vect (vectors ! i) (vectors ! v) = Inr q" "length q = d"
    using proj_vect_same_length [of "vectors ! i" "vectors ! v"] by auto
  from Cons.prems have "\<forall>i\<in>set (js @ [j]). i < length vectors" by simp
  from Cons.IH [OF this] q l show ?case by (simp add: np_vsub_same_length)
qed

lemma GS_outer_result:
  assumes wf: "\<forall>u\<in>set vectors. length u = d" and d: "0 < d"
    and ks: "\<forall>k\<in>set ks. 1 \<le> k \<and> k < length vectors"
  shows "GS_outer vectors ks nv bas =
         Inr (bas @ map (\<lambda>k. map2 np_sub (vectors ! k) (projr (proj_vect (vectors ! (k - 1)) (vectors ! k)))) ks)"
  using ks
proof (induction ks arbitrary: nv bas)
  case Nil
  then show ?case by simp
next
  case (Cons k ks)
  then have k: "1 \<le> k" "k < length vectors" by simp_all
  then have upt: "[0..<k] = [0..<k - 1] @ [k - 1]"
    by (metis Suc_diff_1 less_eq_Suc_le upt_Suc_append zero_le One_nat_def)
  have "\<forall>i\<in>set ([0..<k - 1] @ [k - 1]). i < length vectors" using k by auto
  from GS_inner_last [OF wf d k(2) this, of nv]
  obtain p where p: "proj_vect (vectors ! (k - 1)) (vectors ! k) = Inr p"
    "GS_inner vectors k [0..<k] nv = Inr (Some (map2 np_sub (vectors ! k) p))"
    using upt by auto
  from Cons.prems have "\<forall>k\<in>set ks. 1 \<le> k \<and> k < length vectors" by simp
  from Cons.IH [OF this] p show ?case by simp
qed

text \<open>
  C4. For a non-empty sequence of vectors of one positive dimension, \<^verbatim>\<open>Gram_Schmidt\<close>
  returns a sequence of the same length whose first vector is the first input vector
  and whose \<open>k\<close>-th vector, \<open>k \<ge> 1\<close>, is \<open>input[k]\<close> minus the one projection
  \<^verbatim>\<open>proj_vect(input[k-1], input[k])\<close> of \<open>input[k]\<close> onto \<open>input[k-1]\<close>; nothing is
  normalized.
\<close>

theorem Gram_Schmidt_one_projection:
  assumes "vectors \<noteq> []" and "\<forall>u\<in>set vectors. length u = d" and "0 < d"
  shows "\<exists>bas. Gram_Schmidt vectors = Inr bas
           \<and> length bas = length vectors
           \<and> bas ! 0 = vectors ! 0
           \<and> (\<forall>k. 1 \<le> k \<and> k < length vectors \<longrightarrow>
                 (\<exists>p. proj_vect (vectors ! (k - 1)) (vectors ! k) = Inr p
                      \<and> bas ! k = map2 np_sub (vectors ! k) p))"
proof -
  define f where "f = (\<lambda>k. map2 np_sub (vectors ! k) (projr (proj_vect (vectors ! (k - 1)) (vectors ! k))))"
  define bas where "bas = vectors ! 0 # map f [1..<length vectors]"
  from assms(1) obtain v0 rest where vs: "vectors = v0 # rest" by (cases vectors) auto
  have "\<forall>k\<in>set [1..<length vectors]. 1 \<le> k \<and> k < length vectors" by simp
  from GS_outer_result [OF assms(2,3) this, of None "[vectors ! 0]"]
  have gs: "Gram_Schmidt vectors = Inr bas" by (simp add: Gram_Schmidt_def vs bas_def f_def)
  have "0 < length vectors" using assms(1) by simp
  then have len: "length bas = length vectors" by (simp add: bas_def)
  have hd: "bas ! 0 = vectors ! 0" by (simp add: bas_def)
  have "\<exists>p. proj_vect (vectors ! (k - 1)) (vectors ! k) = Inr p \<and> bas ! k = map2 np_sub (vectors ! k) p"
    if k: "1 \<le> k \<and> k < length vectors" for k
  proof -
    from k have "k - 1 < length vectors" "k < length vectors" by arith+
    with assms(2) have l: "length (vectors ! (k - 1)) = d" "length (vectors ! k) = d"
      using nth_mem by blast+
    with assms(3) obtain p where p: "proj_vect (vectors ! (k - 1)) (vectors ! k) = Inr p"
      using proj_vect_same_length [of "vectors ! (k - 1)" "vectors ! k"] by auto
    from k obtain m where m: "k = Suc m" by (cases k) auto
    with k have "m < length [1..<length vectors]" by simp
    then have "map f [1..<length vectors] ! m = f ([1..<length vectors] ! m)" by (rule nth_map)
    also have "[1..<length vectors] ! m = k" using k m by simp
    finally have "bas ! k = f k" by (simp add: bas_def m)
    with p show ?thesis by (simp add: f_def)
  qed
  with gs len hd show ?thesis by blast
qed

theorem Gram_Schmidt_one_projection_witness:
  "\<exists>bas. Gram_Schmidt [[Fin 1, Fin 1], [Fin 1, Fin 0], [Fin 0, Fin 2]] = Inr bas
      \<and> length bas = 3
      \<and> bas ! 0 = [Fin 1, Fin 1]
      \<and> bas ! 1 = [Fin (1/2), Fin (- (1/2))]
      \<and> bas ! 2 = [Fin 0, Fin 2]"
proof -
  let ?vs = "[[Fin 1, Fin 1], [Fin 1, Fin 0], [Fin 0, Fin 2]]"
  have h1: "?vs \<noteq> []" by simp
  have h2: "\<forall>u\<in>set ?vs. length u = 2" by simp
  have h3: "(0::nat) < 2" by simp
  from Gram_Schmidt_one_projection [OF h1 h2 h3]
  obtain bas where gs: "Gram_Schmidt ?vs = Inr bas" and len: "length bas = length ?vs"
    and b0: "bas ! 0 = ?vs ! 0"
    and bk: "\<And>k. 1 \<le> k \<and> k < length ?vs \<Longrightarrow>
               \<exists>p. proj_vect (?vs ! (k - 1)) (?vs ! k) = Inr p \<and> bas ! k = map2 np_sub (?vs ! k) p"
    by blast
  have p1: "proj_vect [Fin 1, Fin 1] [Fin 1, Fin 0] = Inr [Fin (1/2), Fin (1/2)]"
    by (simp add: proj_vect_def inner_vect_def norm_vect_def py_sum_def eval_nat_numeral)
  have p2: "proj_vect [Fin 1, Fin 0] [Fin 0, Fin 2] = Inr [Fin 0, Fin 0]"
    by (simp add: proj_vect_def inner_vect_def norm_vect_def py_sum_def eval_nat_numeral)
  from bk [of 1] p1 have b1: "bas ! 1 = [Fin (1/2), Fin (- (1/2))]"
    by (simp add: np_sub_def)
  from bk [of 2] p2 have b2: "bas ! 2 = [Fin 0, Fin 2]"
    by (simp add: np_sub_def)
  from gs len b0 b1 b2 show ?thesis by simp
qed

section \<open>Properties of the exponent iterator\<close>

lemma py_index_update_other: "n \<noteq> m \<Longrightarrow> py_index (xs[m := y]) n = py_index xs n"
  by (simp add: py_index_def)

lemma Lyapunov_loop_update_unread:
  "m \<notin> set ns \<Longrightarrow>
   Lyapunov_loop dm A B (xs[m := y]) ns J u ex = Lyapunov_loop dm A B xs ns J u ex"
proof (induction ns arbitrary: J u ex)
  case Nil
  then show ?case by simp
next
  case (Cons n ns)
  then have "n \<noteq> m" "m \<notin> set ns" by auto
  with Cons.IH show ?case
    by (simp add: py_index_update_other split: sum.splits prod.splits)
qed

lemma Lyapunov_loop_snoc:
  "Lyapunov_loop dm A B xs (ns @ [m]) J u ex =
     (case Lyapunov_loop dm A B xs ns J u ex of
        Inl e \<Rightarrow> Inl e
      | Inr (J', u', ex') \<Rightarrow>
          (case Lyapunov_step dm J' u' ex' of
             Inl e \<Rightarrow> Inl e
           | Inr (u'', ex'') \<Rightarrow>
               (case py_index xs m of
                  Inl e \<Rightarrow> Inl e
                | Inr x \<Rightarrow> Inr (jacobian A B x, u'', ex''))))"
  by (induction ns arbitrary: J u ex) (simp_all split: sum.splits prod.splits)

lemma Lyapunov_loop_last_value:
  assumes "m \<notin> set ns"
  shows "map_sum id snd (Lyapunov_loop dm A B (xs[m := y]) (ns @ [m]) J u ex)
       = map_sum id snd (Lyapunov_loop dm A B xs (ns @ [m]) J u ex)"
  by (simp add: Lyapunov_loop_snoc Lyapunov_loop_update_unread [OF assms] py_index_def
      split: sum.splits prod.splits)

text \<open>
  C10, for \<open>N \<ge> 2\<close>. For \<open>N \<ge> 2\<close> the result of \<^verbatim>\<open>Lyapunov\<close> does not depend on the orbit
  value at index \<open>N - 1\<close>: it is read by the last pass of the loop into a Jacobian
  that is never applied.
\<close>

theorem Lyapunov_ignores_last_orbit_value:
  assumes "2 \<le> N"
  shows "Lyapunov N bas (xvalues[nat (N - 1) := y]) A B = Lyapunov N bas xvalues A B"
proof -
  define m where "m = nat (N - 1)"
  from assms have m: "1 \<le> m" "nat N = Suc m" by (simp_all add: m_def)
  then have upt: "[1..<nat N] = [1..<m] @ [m]" by simp
  have notin: "m \<notin> set [1..<m]" by simp
  have x0: "py_index (xvalues[m := y]) 0 = py_index xvalues 0"
    using m by (simp add: py_index_update_other)
  have fin: "(case r of Inl e \<Rightarrow> Inl e | Inr (J, u', ex') \<Rightarrow> g u' ex')
           = (case map_sum id snd r of Inl e \<Rightarrow> Inl e | Inr (u', ex') \<Rightarrow> g u' ex')"
    for r :: "pyerr + (mat \<times> vec list \<times> npfloat list)" and g :: "vec list \<Rightarrow> npfloat list \<Rightarrow> pyerr + npfloat list"
    by (cases r) auto
  show ?thesis
    unfolding Lyapunov_def m_def [symmetric] Let_def x0 upt fin
      Lyapunov_loop_last_value [OF notin] ..
qed

theorem Lyapunov_ignores_last_orbit_value_witness:
  "(2::int) \<le> 2 \<and>
   Lyapunov 2 (basis 2) ([Fin 1, Fin 0][nat (2 - 1) := Fin 7]) (Fin 1) (Fin 1)
   = Lyapunov 2 (basis 2) [Fin 1, Fin 0] (Fin 1) (Fin 1)"
  using Lyapunov_ignores_last_orbit_value [of 2 "basis 2" "[Fin 1, Fin 0]" "Fin 7" "Fin 1" "Fin 1"]
  by simp

lemmas Lyapunov_eval = Lyapunov_def Lyapunov_spec_def Lyapunov_step_def Gram_Schmidt_def
  proj_vect_def inner_vect_def norm_vect_def py_sum_def np_vsub_def np_sub_def jacobian_def
  py_index_def Let_def eval_nat_numeral

lemma basis_2: "basis 2 = [[Fin 1, Fin 0], [Fin 0, Fin 1]]"
  by (simp add: basis_def eval_nat_numeral)

lemma Lyapunov_one_step_at_0:
  "Lyapunov 1 (basis 2) [Fin 0] (Fin 1) (Fin 1) = Inr [Fin 0, Fin 0]"
  by (simp add: basis_2) (simp add: Lyapunov_eval)

lemma Lyapunov_one_step_at_1:
  "Lyapunov 1 (basis 2) [Fin 1] (Fin 1) (Fin 1) = Inr [Fin (ln 5), Fin (ln (1/5))]"
  by (simp add: basis_2) (simp add: Lyapunov_eval)

text \<open>
  C10 as stated fails for \<open>N = 1\<close>: index \<open>N - 1\<close> is then index 0, whose value builds
  the one Jacobian that is applied.
\<close>

theorem Lyapunov_depends_on_only_orbit_value:
  "Lyapunov 1 (basis 2) ([Fin 0][nat (1 - 1) := Fin 1]) (Fin 1) (Fin 1)
   \<noteq> Lyapunov 1 (basis 2) [Fin 0] (Fin 1) (Fin 1)"
  by (simp add: Lyapunov_one_step_at_0 Lyapunov_one_step_at_1)

lemma Lyapunov_loop_shifted:
  assumes "1 \<le> k" "m \<le> length xs"
  shows "map_sum id snd (Lyapunov_loop dm A B xs [k..<m] (jacobian A B (xs ! (k - 1))) u ex)
         = Lyapunov_loop_spec dm A B (x # xs) [k..<m] u ex"
  using assms
proof (induction "m - k" arbitrary: k u ex)
  case 0
  then show ?case by simp
next
  case (Suc d)
  then have km: "k < m" by simp
  then have upt: "[k..<m] = k # [Suc k..<m]" by (rule upt_conv_Cons)
  from Suc.prems km have rd: "py_index xs k = Inr (xs ! k)" "py_index (x # xs) k = Inr (xs ! (k - 1))"
    by (simp_all add: py_index_def nth_Cons')
  from Suc.hyps(2) km have d: "d = m - Suc k" by simp
  have ih: "map_sum id snd (Lyapunov_loop dm A B xs [Suc k..<m] (jacobian A B (xs ! k)) u' ex')
         = Lyapunov_loop_spec dm A B (x # xs) [Suc k..<m] u' ex'" for u' ex'
    using Suc.hyps(1) [OF d, of u' ex'] Suc.prems(2) by simp
  show ?case
    by (simp add: upt rd ih split: sum.splits prod.splits)
qed

text \<open>Which Jacobian each step applies: on an orbit long enough for every read, the code
  computes what the iteration worded in the specification computes on the orbit with
  its first value repeated, \<open>x\<^sub>0, x\<^sub>0, x\<^sub>1, \<dots>\<close>; step \<open>n \<ge> 1\<close> applies the Jacobian
  of \<^verbatim>\<open>xvalues[n-1]\<close>.\<close>

lemma Lyapunov_is_spec_on_shifted_orbit:
  assumes "xs \<noteq> []" "N \<le> int (length xs)"
  shows "Lyapunov N bas xs A B = Lyapunov_spec N bas (hd xs # xs) A B"
proof -
  from assms(2) have m: "nat N \<le> length xs" by simp
  have x0: "py_index xs 0 = Inr (hd xs)" "py_index (hd xs # xs) 0 = Inr (hd xs)"
    using assms(1) by (simp_all add: py_index_def hd_conv_nth)
  have j: "jacobian A B (hd xs) = jacobian A B (xs ! (1 - 1))"
    using assms(1) by (simp add: hd_conv_nth)
  have fin: "(case r of Inl e \<Rightarrow> Inl e | Inr (J, u', ex') \<Rightarrow> g u' ex')
           = (case map_sum id snd r of Inl e \<Rightarrow> Inl e | Inr (u', ex') \<Rightarrow> g u' ex')"
    for r :: "pyerr + (mat \<times> vec list \<times> npfloat list)" and g :: "vec list \<Rightarrow> npfloat list \<Rightarrow> pyerr + npfloat list"
    by (cases r) auto
  have loop: "map_sum id snd (Lyapunov_loop dm A B xs [1..<nat N] (jacobian A B (hd xs)) u ex)
         = Lyapunov_loop_spec dm A B (hd xs # xs) [1..<nat N] u ex" for dm u ex
    unfolding j by (rule Lyapunov_loop_shifted [OF le_refl m])
  show ?thesis
    by (simp only: Lyapunov_def Lyapunov_spec_def Let_def x0 sum.case) (simp only: fin loop)
qed

lemma Lyapunov_two_steps_code:
  "Lyapunov 2 (basis 2) [Fin 1, Fin 0] (Fin 1) (Fin 1)
   = Inr [Fin ((ln 5 + ln (29/25)) / 2), Fin ((ln (1/5) + ln (25/29)) / 2)]"
  by (simp add: basis_2) (simp add: Lyapunov_eval)

lemma Lyapunov_two_steps_spec:
  "Lyapunov_spec 2 (basis 2) [Fin 1, Fin 0] (Fin 1) (Fin 1)
   = Inr [Fin ((ln 5 + ln (1/5)) / 2), Fin ((ln (1/5) + ln 5) / 2)]"
  by (simp add: basis_2) (simp add: Lyapunov_eval)

text \<open>
  C1. With \<open>N = 2\<close>, the standard basis, orbit values \<open>[1, 0]\<close> and \<open>A = B = 1\<close>, the
  code's result is not the result of the iteration in which step 1 propagates with the
  Jacobian rebuilt from \<^verbatim>\<open>xvalues[1]\<close>: the loop body propagates with the \<^verbatim>\<open>J\<close> left by
  the previous pass, here the Jacobian of \<^verbatim>\<open>xvalues[0]\<close> a second time.
\<close>

theorem Lyapunov_step_uses_previous_jacobian:
  "Lyapunov 2 (basis 2) [Fin 1, Fin 0] (Fin 1) (Fin 1)
     = Inr [Fin ((ln 5 + ln (29/25)) / 2), Fin ((ln (1/5) + ln (25/29)) / 2)]
   \<and> Lyapunov_spec 2 (basis 2) [Fin 1, Fin 0] (Fin 1) (Fin 1)
     = Inr [Fin ((ln 5 + ln (1/5)) / 2), Fin ((ln (1/5) + ln 5) / 2)]
   \<and> Lyapunov 2 (basis 2) [Fin 1, Fin 0] (Fin 1) (Fin 1)
     \<noteq> Lyapunov_spec 2 (basis 2) [Fin 1, Fin 0] (Fin 1) (Fin 1)"
proof -
  have p: "0 < ln (29/25::real)" "0 < ln (5::real)" by simp_all
  have e: "ln (1/5::real) = - ln 5" by (simp add: ln_div)
  have g: "(a + b) / 2 \<noteq> (a + c) / 2" if "0 < b" "0 < a" "c = - a" for a b c :: real
    using that by simp
  have "(ln 5 + ln (29/25)) / 2 \<noteq> (ln 5 + ln (1/5::real)) / 2"
    by (rule g [OF p e])
  then show ?thesis
    by (simp only: Lyapunov_two_steps_code Lyapunov_two_steps_spec) simp
qed

section \<open>Properties of the closed-form estimators\<close>

lemmas traced_defs = bind_tr_def return_tr_def raise_tr_def lift_tr_def prepend_tr_def

lemma snd_prepend_tr: "snd (prepend_tr t m) = snd m"
  by (simp add: prepend_tr_def)

lemma period_loop_result:
  assumes "\<forall>x\<in>set xs. snd (lyapunov_point orc x av bv) = Inr [f x, g x]"
  shows "snd (period_loop orc av bv xs lya1 lya2) = Inr (lya1 @ map f xs, lya2 @ map g xs)"
  using assms
proof (induction xs arbitrary: lya1 lya2)
  case Nil
  then show ?case by simp
next
  case (Cons x xs)
  then have x: "snd (lyapunov_point orc x av bv) = Inr [f x, g x]" by simp
  then obtain t where t: "lyapunov_point orc x av bv = (t, Inr [f x, g x])"
    by (cases "lyapunov_point orc x av bv") simp
  from Cons.prems have "\<forall>x\<in>set xs. snd (lyapunov_point orc x av bv) = Inr [f x, g x]" by simp
  from Cons.IH [OF this] show ?case by (simp add: t snd_prepend_tr)
qed

lemma py_max_min_not_less: "\<not> np_less (py_max a b) (py_min a b)"
  by (cases a; cases b) (auto simp: py_max_def py_min_def)

lemma py_max_min_perm:
  "a \<noteq> NaN \<Longrightarrow> b \<noteq> NaN \<Longrightarrow>
   (py_max a b = a \<and> py_min a b = b) \<or> (py_max a b = b \<and> py_min a b = a)"
  by (cases a; cases b) (auto simp: py_max_def py_min_def)

lemma np_mean_Fin:
  "xs \<noteq> [] \<Longrightarrow> np_mean (map (\<lambda>x. Fin (h x)) xs) = Fin ((\<Sum>x\<leftarrow>xs. h x) / real (length xs))"
  by (simp add: np_mean_def py_sum_Fin)

text \<open>
  C6. For a non-empty cycle on whose points the eigenvalue solver succeeds, with
  \<open>[f x, g x]\<close> the pair that \<^verbatim>\<open>lyapunov_point\<close> returns at \<open>x\<close>, \<^verbatim>\<open>lyapunov_period\<close>
  returns the mean of the \<open>f x\<close> and the mean of the \<open>g x\<close>, each taken over the cycle
  on its own, ordered by \<^verbatim>\<open>max\<close> and \<^verbatim>\<open>min\<close>: the second is never greater than the
  first, and when neither mean is \<^verbatim>\<open>nan\<close> the two results are the two means.
\<close>

theorem lyapunov_period_sorted_means:
  assumes "xpoints \<noteq> []"
    and "\<forall>x\<in>set xpoints. snd (lyapunov_point orc x av bv) = Inr [f x, g x]"
  shows "\<exists>r0 r1. snd (lyapunov_period orc xpoints av bv) = Inr [r0, r1]
     \<and> r0 = py_max (np_mean (map f xpoints)) (np_mean (map g xpoints))
     \<and> r1 = py_min (np_mean (map f xpoints)) (np_mean (map g xpoints))
     \<and> \<not> np_less r0 r1
     \<and> (np_mean (map f xpoints) \<noteq> NaN \<and> np_mean (map g xpoints) \<noteq> NaN \<longrightarrow>
          (r0 = np_mean (map f xpoints) \<and> r1 = np_mean (map g xpoints))
          \<or> (r0 = np_mean (map g xpoints) \<and> r1 = np_mean (map f xpoints)))"
proof -
  from period_loop_result [OF assms(2), of "[]" "[]"]
  have "snd (period_loop orc av bv xpoints [] []) = Inr (map f xpoints, map g xpoints)" by simp
  then have "snd (lyapunov_period orc xpoints av bv)
      = Inr [py_max (np_mean (map f xpoints)) (np_mean (map g xpoints)),
             py_min (np_mean (map f xpoints)) (np_mean (map g xpoints))]"
    by (simp add: lyapunov_period_def traced_defs)
  then show ?thesis
    using py_max_min_not_less py_max_min_perm by blast
qed

theorem lyapunov_period_sorted_means_witness:
  "snd (lyapunov_period
     \<lparr>Henon = (\<lambda>x0 y0 n a b d. Inr (None, None)),
      determine_point = (\<lambda>xs ys. Inr None),
      determine_period = (\<lambda>xs ys. Inr None),
      solve_eig_vals = (\<lambda>x a b. Inr (EigReal (Fin 1), EigReal x))\<rparr>
     [Fin 2, Fin 3] (Fin 1) (Fin 1))
   = Inr [Fin ((ln 2 + ln 3) / 2), Fin 0]"
proof -
  let ?orc = "\<lparr>Henon = (\<lambda>x0 y0 n a b d. Inr (None, None)),
      determine_point = (\<lambda>xs ys. Inr None),
      determine_period = (\<lambda>xs ys. Inr None),
      solve_eig_vals = (\<lambda>x a b. Inr (EigReal (Fin 1), EigReal x))\<rparr>"
  let ?f = "\<lambda>x. py_max (Fin 0) (np_log (np_abs x))"
  let ?g = "\<lambda>x. py_min (Fin 0) (np_log (np_abs x))"
  have h1: "[Fin 2, Fin 3] \<noteq> []" by simp
  have h2: "\<forall>x\<in>set [Fin 2, Fin 3]. snd (lyapunov_point ?orc x (Fin 1) (Fin 1)) = Inr [?f x, ?g x]"
    by (simp add: lyapunov_point_def traced_defs Let_def)
  have m1: "np_mean (map ?f [Fin 2, Fin 3]) = Fin ((ln 2 + ln 3) / 2)"
    by (simp add: np_mean_def py_sum_def py_max_def)
  have m2: "np_mean (map ?g [Fin 2, Fin 3]) = Fin 0"
    by (simp add: np_mean_def py_sum_def py_min_def)
  have pos: "0 < (ln 2 + ln 3) / (2::real)" by (simp add: add_pos_pos)
  from lyapunov_period_sorted_means [OF h1 h2]
  have "snd (lyapunov_period ?orc [Fin 2, Fin 3] (Fin 1) (Fin 1))
        = Inr [py_max (Fin ((ln 2 + ln 3) / 2)) (Fin 0), py_min (Fin ((ln 2 + ln 3) / 2)) (Fin 0)]"
    unfolding m1 m2 by blast
  with pos show ?thesis by (simp add: py_max_def py_min_def)
qed

section \<open>Properties of the dispatcher\<close>

text \<open>
  C8. When \<^verbatim>\<open>A\<close> or \<^verbatim>\<open>B\<close> is neither a \<^verbatim>\<open>float\<close> or \<^verbatim>\<open>int\<close> nor an array,
  \<^verbatim>\<open>calc_lya_henon\<close> raises \<^verbatim>\<open>ValueError\<close> with no call made to the orbit generator or to
  any other collaborator, whatever the other argument is.
\<close>

theorem calc_lya_henon_rejects_other:
  "calc_lya_henon orc Ninit cutoff start POther B dv = ([], Inl ValueError)
   \<and> calc_lya_henon orc Ninit cutoff start A POther dv = ([], Inl ValueError)"
  by (cases A; cases B) (simp_all add: calc_lya_henon_def raise_tr_def)

lemma sweep_cell_diverged:
  assumes "Henon orc x0 y0 Ninit a b dv = Inr (None, ys)"
  shows "sweep_cell orc basisVects Ninit cutoff [x0, y0] dv a b
         = ([Call_Henon x0 y0 Ninit a b dv], Inr (PNone, PNone))"
  using assms by (simp add: sweep_cell_def traced_defs py_index_def)

lemma sweep_cell_unbound_basisVects:
  assumes "Henon orc x0 y0 Ninit a b dv = Inr (Some xs, ys)"
    and "determine_point orc (Some xs) ys = Inr None"
    and "determine_period orc (Some xs) ys = Inr None"
  shows "sweep_cell orc None Ninit cutoff [x0, y0] dv a b
         = ([Call_Henon x0 y0 Ninit a b dv, Call_determine_point (Some xs) ys,
             Call_determine_period (Some xs) ys], Inl UnboundLocalError)"
  using assms by (simp add: sweep_cell_def traced_defs py_index_def)

text \<open>
  C9. With one array argument with a first value and one scalar argument, when the
  orbit generated for the first pair does not diverge and neither a fixed point nor a
  cycle is found, \<^verbatim>\<open>calc_lya_henon\<close> raises \<^verbatim>\<open>UnboundLocalError\<close> and returns no
  sequences: these two branches read \<^verbatim>\<open>basisVects\<close> and never assign it.
\<close>

theorem calc_lya_henon_one_array_unbound_basisVects:
  assumes "Henon orc x0 y0 Ninit a b dv = Inr (Some xs, ys)"
    and "determine_point orc (Some xs) ys = Inr None"
    and "determine_period orc (Some xs) ys = Inr None"
  shows "calc_lya_henon orc Ninit cutoff [x0, y0] (PArray (a # As)) (PScalar b) dv
           = ([Call_Henon x0 y0 Ninit a b dv, Call_determine_point (Some xs) ys,
               Call_determine_period (Some xs) ys], Inl UnboundLocalError)
       \<and> calc_lya_henon orc Ninit cutoff [x0, y0] (PScalar a) (PArray (b # Bs)) dv
           = ([Call_Henon x0 y0 Ninit a b dv, Call_determine_point (Some xs) ys,
               Call_determine_period (Some xs) ys], Inl UnboundLocalError)"
  by (simp add: calc_lya_henon_def sweep_cell_unbound_basisVects [OF assms] bind_tr_def)

theorem calc_lya_henon_one_array_unbound_basisVects_witness:
  "calc_lya_henon
     \<lparr>Henon = (\<lambda>x0 y0 n a b d. Inr (Some [Fin 0, Fin 1], Some [Fin 0, Fin 0])),
      determine_point = (\<lambda>xs ys. Inr None),
      determine_period = (\<lambda>xs ys. Inr None),
      solve_eig_vals = (\<lambda>x a b. Inl OracleError)\<rparr>
     2 0 [Fin 0, Fin 0] (PArray [Fin (14/10)]) (PScalar (Fin (3/10))) True
   = ([Call_Henon (Fin 0) (Fin 0) 2 (Fin (14/10)) (Fin (3/10)) True,
       Call_determine_point (Some [Fin 0, Fin 1]) (Some [Fin 0, Fin 0]),
       Call_determine_period (Some [Fin 0, Fin 1]) (Some [Fin 0, Fin 0])],
      Inl UnboundLocalError)"
  using calc_lya_henon_one_array_unbound_basisVects
    [of "\<lparr>Henon = (\<lambda>x0 y0 n a b d. Inr (Some [Fin 0, Fin 1], Some [Fin 0, Fin 0])),
      determine_point = (\<lambda>xs ys. Inr None),
      determine_period = (\<lambda>xs ys. Inr None),
      solve_eig_vals = (\<lambda>x a b. Inl OracleError)\<rparr>"
     "Fin 0" "Fin 0" 2 "Fin (14/10)" "Fin (3/10)" True "[Fin 0, Fin 1]" "Some [Fin 0, Fin 0]" 0 "[]" "[]"]
  by simp

text \<open>
  C3. With scalar \<^verbatim>\<open>A\<close> and \<^verbatim>\<open>B\<close> and an orbit generator that signals divergence,
  \<^verbatim>\<open>calc_lya_henon\<close> queries the fixed-point search on the diverged orbit right after
  generating it, and, when both searches return, the cycle search too, before it
  returns the single value \<^verbatim>\<open>None\<close>. (The array branches test for divergence first:
  \<open>sweep_cell_diverged\<close>.)
\<close>

theorem calc_lya_henon_scalar_queries_diverged_orbit:
  assumes "Henon orc x0 y0 Ninit a b dv = Inr (None, ys)"
  shows "take 2 (fst (calc_lya_henon orc Ninit cutoff [x0, y0] (PScalar a) (PScalar b) dv))
           = [Call_Henon x0 y0 Ninit a b dv, Call_determine_point None ys]
       \<and> (\<forall>p c. determine_point orc None ys = Inr p \<and> determine_period orc None ys = Inr c \<longrightarrow>
            calc_lya_henon orc Ninit cutoff [x0, y0] (PScalar a) (PScalar b) dv
            = ([Call_Henon x0 y0 Ninit a b dv, Call_determine_point None ys,
                Call_determine_period None ys], Inr RNone))"
  using assms
  by (auto simp: calc_lya_henon_def traced_defs py_index_def Let_def split: sum.splits)

theorem calc_lya_henon_scalar_queries_diverged_orbit_witness:
  "calc_lya_henon
     \<lparr>Henon = (\<lambda>x0 y0 n a b d. Inr (None, None)),
      determine_point = (\<lambda>xs ys. Inr None),
      determine_period = (\<lambda>xs ys. Inr None),
      solve_eig_vals = (\<lambda>x a b. Inl OracleError)\<rparr>
     10 0 [Fin 0, Fin 0] (PScalar (Fin 2)) (PScalar (Fin (3/10))) True
   = ([Call_Henon (Fin 0) (Fin 0) 10 (Fin 2) (Fin (3/10)) True,
       Call_determine_point None None, Call_determine_period None None], Inr RNone)"
  using calc_lya_henon_scalar_queries_diverged_orbit
    [of "\<lparr>Henon = (\<lambda>x0 y0 n a b d. Inr (None, None)),
      determine_point = (\<lambda>xs ys. Inr None),
      determine_period = (\<lambda>xs ys. Inr None),
      solve_eig_vals = (\<lambda>x a b. Inl OracleError)\<rparr>"
     "Fin 0" "Fin 0" 10 "Fin 2" "Fin (3/10)" True None 0]
  by simp

lemma Lyapunov_zero_norm:
  "Lyapunov 2 (basis 2) [Fin (1/4), Fin (7/8)] (Fin 2) (Fin 0) = Inr [Fin 0, NaN]"
  by (simp add: basis_2) (simp add: Lyapunov_eval)

lemma Lyapunov_zero_norm_1:
  "Lyapunov 1 (basis 2) [Fin (1/4)] (Fin 2) (Fin 0) = Inr [Fin 0, NInf]"
  by (simp add: basis_2) (simp add: Lyapunov_eval)

lemma sweep_cell_generic_not_sentinel:
  assumes "Henon orc x0 y0 Ninit a b dv = Inr (Some xs, ys)"
    and "determine_point orc (Some xs) ys = Inr None"
    and "determine_period orc (Some xs) ys = Inr None"
  shows "snd (sweep_cell orc (Some bas) Ninit cutoff [x0, y0] dv a b) \<noteq> Inr (PNone, PNone)"
  using assms
  by (auto simp: sweep_cell_def traced_defs py_index_def split: sum.splits)

text \<open>
  C7. Array arguments \<open>A = [2]\<close>, \<open>B = [0]\<close>, two iterations without cutoff, an orbit
  \<open>[1/4, 7/8]\<close> with neither a fixed point nor a cycle found: the second orthogonalized
  vector of the first step is the zero vector, \<^verbatim>\<open>np.log\<close> of its norm is \<^verbatim>\<open>-inf\<close>, the
  iteration goes on with \<^verbatim>\<open>nan\<close> and returns \<open>[0, nan]\<close>; the dispatcher records the
  numbers \<open>(0, 0)\<close> for the cell, not \<^verbatim>\<open>(None, None)\<close>.
\<close>

theorem calc_lya_henon_zero_norm_records_numbers:
  "calc_lya_henon
     \<lparr>Henon = (\<lambda>x0 y0 n a b d. Inr (Some [Fin (1/4), Fin (7/8)], Some [Fin 0, Fin 0])),
      determine_point = (\<lambda>xs ys. Inr None),
      determine_period = (\<lambda>xs ys. Inr None),
      solve_eig_vals = (\<lambda>x a b. Inl OracleError)\<rparr>
     2 0 [Fin (1/4), Fin 0] (PArray [Fin 2]) (PArray [Fin 0]) True
   = ([Call_Henon (Fin (1/4)) (Fin 0) 2 (Fin 2) (Fin 0) True,
       Call_determine_point (Some [Fin (1/4), Fin (7/8)]) (Some [Fin 0, Fin 0]),
       Call_determine_period (Some [Fin (1/4), Fin (7/8)]) (Some [Fin 0, Fin 0])],
      Inr (RGrid [[PFloat (Fin 0)]] [[PFloat (Fin 0)]]))"
proof -
  have b: "basis (length [Fin (1/4), Fin 0 :: npfloat]) = basis 2"
    by (simp add: numeral_2_eq_2)
  have c: "sweep_cell
     \<lparr>Henon = (\<lambda>x0 y0 n a b d. Inr (Some [Fin (1/4), Fin (7/8)], Some [Fin 0, Fin 0])),
      determine_point = (\<lambda>xs ys. Inr None),
      determine_period = (\<lambda>xs ys. Inr None),
      solve_eig_vals = (\<lambda>x a b. Inl OracleError)\<rparr>
     (Some (basis 2)) 2 0 [Fin (1/4), Fin 0] True (Fin 2) (Fin 0)
   = ([Call_Henon (Fin (1/4)) (Fin 0) 2 (Fin 2) (Fin 0) True,
       Call_determine_point (Some [Fin (1/4), Fin (7/8)]) (Some [Fin 0, Fin 0]),
       Call_determine_period (Some [Fin (1/4), Fin (7/8)]) (Some [Fin 0, Fin 0])],
      Inr (PFloat (Fin 0), PFloat (Fin 0)))"
    by (simp add: sweep_cell_def traced_defs py_index_def py_slice_from_def
        Lyapunov_zero_norm py_max_def py_min_def)
  show ?thesis
    unfolding calc_lya_henon_def Let_def b
    by (simp add: c traced_defs)
qed

end
